theory Spec2Isabelle
  imports Main "HOL-Library.Sublist"
begin

section \<open>The document-finder relay: src/api/index.js\<close>

text \<open>
  The program is one Express route, \<^verbatim>\<open>app.post('/api', async (req, res) => ...)\<close>, and three
  helper functions: \<^verbatim>\<open>saveDocument\<close>, \<^verbatim>\<open>searchDocuments\<close> and \<^verbatim>\<open>getTagsFromOpenAI\<close>.
  It talks to two external services, the chat-completion API and the spreadsheet API.
  The model passes the answers of both services in as an environment and returns, next to
  every result, the list of calls that were made, in the order they were made.
  A JavaScript exception is a value of type \<open>exn\<close>; a function that can throw returns
  \<open>exn + 'a\<close>, with \<open>Inl\<close> for the exception.
\<close>

subsection \<open>JavaScript values\<close>

text \<open>
  The values that reach the code from a parsed JSON body, together with \<^verbatim>\<open>undefined\<close>.
  An object is its list of properties; the first binding of a name is the property's value.
  The value of a number is never inspected by the program.
  Strings are lists of Isabelle characters; case mapping is the one of the ASCII letters.
\<close>

datatype jsval =
    JUndefined
  | JNull
  | JBool bool
  | JNum int
  | JStr string
  | JArr "jsval list"
  | JObj "(string \<times> jsval) list"

datatype exn = TypeError string | ServiceError string

fun message :: "exn \<Rightarrow> string" where
  "message (TypeError m) = m"
| "message (ServiceError m) = m"

definition field :: "(string \<times> jsval) list \<Rightarrow> string \<Rightarrow> jsval" where
  "field ps k = (case map_of ps k of None \<Rightarrow> JUndefined | Some v \<Rightarrow> v)"

definition nullish :: "jsval \<Rightarrow> bool" where
  "nullish v = (v = JUndefined \<or> v = JNull)"

text \<open>
  \<^verbatim>\<open>v.k\<close> for the property names the program reads (\<^verbatim>\<open>url\<close>, \<^verbatim>\<open>title\<close>, \<^verbatim>\<open>content\<close>,
  \<^verbatim>\<open>query\<close>, \<^verbatim>\<open>status\<close>), none of which a string, number, boolean or array has:
  reading a property of \<^verbatim>\<open>undefined\<close> or \<^verbatim>\<open>null\<close> throws a TypeError.
\<close>

fun js_prop :: "jsval \<Rightarrow> string \<Rightarrow> jsval" where
  "js_prop (JObj ps) k = field ps k"
| "js_prop _ k = JUndefined"

definition get_prop :: "jsval \<Rightarrow> string \<Rightarrow> exn + jsval" where
  "get_prop v k =
     (if nullish v then Inl (TypeError ''Cannot read properties of undefined'')
      else Inr (js_prop v k))"

subsection \<open>String built-ins\<close>

definition lower_char :: "char \<Rightarrow> char" where
  "lower_char c =
     (case map_of (zip ''ABCDEFGHIJKLMNOPQRSTUVWXYZ'' ''abcdefghijklmnopqrstuvwxyz'') c of
        None \<Rightarrow> c
      | Some l \<Rightarrow> l)"

definition toLowerCase :: "string \<Rightarrow> string" where
  "toLowerCase s = map lower_char s"

text \<open>\<^verbatim>\<open>hay.includes(needle)\<close>: the needle occurs in the hay as a contiguous run.\<close>

fun str_includes :: "string \<Rightarrow> string \<Rightarrow> bool" where
  "str_includes [] needle = (needle = [])"
| "str_includes (c # cs) needle = (prefix needle (c # cs) \<or> str_includes cs needle)"

definition substring :: "string \<Rightarrow> nat \<Rightarrow> nat \<Rightarrow> string" where
  "substring s a b = take (max a b - min a b) (drop (min a b) s)"

text \<open>\<^verbatim>\<open>s.trim()\<close> removes white space at both ends; here the ASCII white space characters.\<close>

definition is_space :: "char \<Rightarrow> bool" where
  "is_space c = ((of_char c :: nat) \<in> {9, 10, 11, 12, 13, 32})"

definition trim :: "string \<Rightarrow> string" where
  "trim s = rev (dropWhile is_space (rev (dropWhile is_space s)))"

subsection \<open>The external services\<close>

text \<open>
  A completion is the list of its choices, each the content of the choice's message
  (\<open>None\<close> for a \<^verbatim>\<open>null\<close> content). A sheet is a list of rows, a row a list of cell texts;
  the service leaves trailing empty cells out, so rows differ in length. The \<^verbatim>\<open>values\<close>
  property of a read is absent for an empty sheet.
\<close>

type_synonym completion = "string option list"
type_synonym row = "string list"

datatype cell = CDate nat | CVal jsval

datatype event =
    ChatCreate string
  | ValuesAppend "cell list"
  | ValuesGet

record env =
  chat_create :: "string \<Rightarrow> exn + completion"
  values_append :: "cell list \<Rightarrow> exn + unit"
  values_get :: "exn + row list option"
  now :: nat

subsection \<open>getTagsFromOpenAI\<close>

definition prompt_of :: "string \<Rightarrow> string" where
  "prompt_of text =
     ''Generate 5-10 comma-separated keywords for: \"'' @ substring text 0 2000 @ ''\"''"

definition error_obj :: "string \<Rightarrow> jsval" where
  "error_obj m = JObj [(''status'', JStr ''error''), (''message'', JStr m)]"

text \<open>\<^verbatim>\<open>completion.choices[0].message.content.trim()\<close>\<close>

definition first_content :: "completion \<Rightarrow> exn + string" where
  "first_content choices =
     (case choices of
        [] \<Rightarrow> Inl (TypeError ''Cannot read properties of undefined (reading message)'')
      | None # _ \<Rightarrow> Inl (TypeError ''Cannot read properties of null (reading trim)'')
      | Some c # _ \<Rightarrow> Inr (trim c))"

text \<open>The body of the \<^verbatim>\<open>try\<close> block: the tags, or the exception that the block throws.\<close>

definition tags_try :: "env \<Rightarrow> jsval \<Rightarrow> (exn + string) \<times> event list" where
  "tags_try env textContent =
     (case textContent of
        JStr text \<Rightarrow>
          (case chat_create env (prompt_of text) of
             Inl e \<Rightarrow> (Inl e, [ChatCreate (prompt_of text)])
           | Inr completion \<Rightarrow> (first_content completion, [ChatCreate (prompt_of text)]))
      | _ \<Rightarrow> (Inl (TypeError ''textContent.substring is not a function''), []))"

definition getTagsFromOpenAI :: "env \<Rightarrow> jsval \<Rightarrow> jsval \<times> event list" where
  "getTagsFromOpenAI env textContent =
     (case tags_try env textContent of
        (Inr tags, tr) \<Rightarrow> (JStr tags, tr)
      | (Inl e, tr) \<Rightarrow> (error_obj (''OpenAI Error: '' @ message e), tr))"

subsection \<open>saveDocument\<close>

definition saveDocument :: "env \<Rightarrow> jsval \<Rightarrow> (exn + jsval) \<times> event list" where
  "saveDocument env data =
     (if nullish data then (Inl (TypeError ''Cannot destructure property url of data''), [])
      else
        let url = js_prop data ''url''; title = js_prop data ''title''; content = js_prop data ''content'';
            (tags, tr) = getTagsFromOpenAI env content
        in if js_prop tags ''status'' = JStr ''error'' then (Inr tags, tr)
           else
             let values = [CDate (now env), CVal url, CVal title, CVal tags]
             in (case values_append env values of
                   Inl e \<Rightarrow> (Inl e, tr @ [ValuesAppend values])
                 | Inr _ \<Rightarrow>
                     (Inr (JObj [(''status'', JStr ''success''),
                                 (''message'', JStr ''Document saved!''),
                                 (''tags'', tags)]),
                      tr @ [ValuesAppend values])))"

subsection \<open>searchDocuments\<close>

text \<open>\<^verbatim>\<open>row[j]\<close>: \<^verbatim>\<open>undefined\<close> past the end of the row.\<close>

definition cell_at :: "row \<Rightarrow> nat \<Rightarrow> jsval" where
  "cell_at r j = (if j < length r then JStr (r ! j) else JUndefined)"

text \<open>\<^verbatim>\<open>v ? v.toLowerCase() : ''\<close> for a cell: only a non-empty string is truthy.\<close>

fun lowered :: "jsval \<Rightarrow> string" where
  "lowered (JStr s) = (if s \<noteq> [] then toLowerCase s else [])"
| "lowered _ = []"

definition row_matches :: "string \<Rightarrow> row \<Rightarrow> bool" where
  "row_matches lowerCaseQuery r =
     (str_includes (lowered (cell_at r 2)) lowerCaseQuery \<or>
      str_includes (lowered (cell_at r 3)) lowerCaseQuery)"

definition record_of :: "row \<Rightarrow> jsval" where
  "record_of r =
     JObj [(''url'', cell_at r 1), (''title'', cell_at r 2), (''tags'', cell_at r 3)]"

function search_loop :: "row list \<Rightarrow> string \<Rightarrow> nat \<Rightarrow> jsval list \<Rightarrow> jsval list" where
  "search_loop data lowerCaseQuery i results =
     (if i < length data then
        search_loop data lowerCaseQuery (Suc i)
          (if row_matches lowerCaseQuery (data ! i) then results @ [record_of (data ! i)]
           else results)
      else results)"
  by pat_completeness auto
termination
  by (relation "measure (\<lambda>(data, q, i, results). length data - i)") auto

declare search_loop.simps [simp del]

text \<open>\<^verbatim>\<open>response.data.values || []\<close>\<close>

definition or_empty :: "row list option \<Rightarrow> row list" where
  "or_empty values = (case values of None \<Rightarrow> [] | Some rows \<Rightarrow> rows)"

definition searchDocuments :: "env \<Rightarrow> jsval \<Rightarrow> (exn + jsval) \<times> event list" where
  "searchDocuments env query =
     (case values_get env of
        Inl e \<Rightarrow> (Inl e, [ValuesGet])
      | Inr values \<Rightarrow>
          let data = or_empty values
          in (case query of
                JStr q \<Rightarrow>
                  (Inr (JObj [(''status'', JStr ''success''),
                              (''results'', JArr (take 50 (search_loop data (toLowerCase q) 1 [])))]),
                   [ValuesGet])
              | _ \<Rightarrow> (Inl (TypeError ''query.toLowerCase is not a function''), [ValuesGet])))"

subsection \<open>The route\<close>

datatype http_method = GET | HEAD | POST | PUT | DELETE | PATCH | OPTIONS

text \<open>
  A request addressed to the path \<^verbatim>\<open>/api\<close>. \<^verbatim>\<open>express.json()\<close> runs before the route and
  leaves an object in \<^verbatim>\<open>req.body\<close> (the empty object when the request has no JSON body).
\<close>

record request =
  req_method :: http_method
  req_body :: "(string \<times> jsval) list"

text \<open>
  What the handler wrote to \<^verbatim>\<open>res\<close>: the status code (200 unless \<^verbatim>\<open>res.status\<close> was
  called), the headers set with \<^verbatim>\<open>res.setHeader\<close>, and the value given to \<^verbatim>\<open>res.json\<close>
  (\<open>None\<close> after \<^verbatim>\<open>res.end()\<close>, which sends no body).
\<close>

record response =
  res_status :: nat
  res_headers :: "(string \<times> string) list"
  res_body :: "jsval option"

definition cors_headers :: "(string \<times> string) list" where
  "cors_headers =
     [(''Access-Control-Allow-Origin'', ''*''),
      (''Access-Control-Allow-Methods'', ''POST, OPTIONS''),
      (''Access-Control-Allow-Headers'', ''Content-Type'')]"

definition json :: "nat \<Rightarrow> jsval \<Rightarrow> response" where
  "json code v = \<lparr>res_status = code, res_headers = cors_headers, res_body = Some v\<rparr>"

text \<open>The callback given to \<^verbatim>\<open>app.post\<close>.\<close>

definition api_handler :: "env \<Rightarrow> request \<Rightarrow> response \<times> event list" where
  "api_handler env req =
     (if req_method req = OPTIONS then
        (\<lparr>res_status = 200, res_headers = cors_headers, res_body = None\<rparr>, [])
      else
        let action = field (req_body req) ''action''; data = field (req_body req) ''data''
        in if action = JStr ''saveDocument'' then
             (case saveDocument env data of
                (Inr result, tr) \<Rightarrow> (json 200 result, tr)
              | (Inl e, tr) \<Rightarrow> (json 500 (error_obj (message e)), tr))
           else if action = JStr ''searchDocuments'' then
             (case get_prop data ''query'' of
                Inl e \<Rightarrow> (json 500 (error_obj (message e)), [])
              | Inr query \<Rightarrow>
                  (case searchDocuments env query of
                     (Inr result, tr) \<Rightarrow> (json 200 result, tr)
                   | (Inl e, tr) \<Rightarrow> (json 500 (error_obj (message e)), tr)))
           else (json 400 (error_obj ''Invalid action''), []))"

text \<open>
  \<^verbatim>\<open>app.post('/api', handler)\<close> registers the callback for the method POST alone. A request
  with another method never reaches it (\<open>None\<close>): the framework answers such a request
  itself, and nothing of the callback runs, its \<^verbatim>\<open>setHeader\<close> calls included.
\<close>

definition api_route :: "env \<Rightarrow> request \<Rightarrow> (response \<times> event list) option" where
  "api_route env req = (if req_method req = POST then Some (api_handler env req) else None)"

subsection \<open>Notions used to state the properties\<close>

text \<open>
  A field of a returned record contains the query as a case-insensitive substring: the
  field is a string, and the lower-cased query occurs in its lower-cased text.
\<close>

definition contains_ci :: "jsval \<Rightarrow> string \<Rightarrow> bool" where
  "contains_ci v q =
     (case v of JStr s \<Rightarrow> sublist (toLowerCase q) (toLowerCase s) | _ \<Rightarrow> False)"

text \<open>The text of cell \<open>j\<close> of a row, the empty string when the row has no such cell.\<close>

definition cell_text :: "row \<Rightarrow> nat \<Rightarrow> string" where
  "cell_text r j = (if j < length r then r ! j else [])"

text \<open>One of the cells the row does have, title (2) or tags (3), contains the query.\<close>

definition present_match :: "row \<Rightarrow> string \<Rightarrow> bool" where
  "present_match r q =
     ((2 < length r \<and> sublist (toLowerCase q) (toLowerCase (r ! 2))) \<or>
      (3 < length r \<and> sublist (toLowerCase q) (toLowerCase (r ! 3))))"

text \<open>
  The row matches the query when a cell it lacks is read as the empty string.
\<close>

definition matches_missing_as_empty :: "string \<Rightarrow> row \<Rightarrow> bool" where
  "matches_missing_as_empty q r =
     (sublist (toLowerCase q) (toLowerCase (cell_text r 2)) \<or>
      sublist (toLowerCase q) (toLowerCase (cell_text r 3)))"

text \<open>A row has a non-empty title or non-empty tags.\<close>

definition has_title_or_tags :: "row \<Rightarrow> bool" where
  "has_title_or_tags r = (cell_text r 2 \<noteq> [] \<or> cell_text r 3 \<noteq> [])"

subsection \<open>Example inputs\<close>

definition sheet_ex :: "row list" where
  "sheet_ex =
     [[''Timestamp'', ''URL'', ''Title'', ''Tags''],
      [''2024-01-01'', ''http://a.com'', ''Foo'', ''cats, pets, animals''],
      [''2024-01-02'', ''http://b.com''],
      [''2024-01-03'', ''http://c.com'', ''Cat Care'']]"

definition env_ex :: env where
  "env_ex =
     \<lparr>chat_create = (\<lambda>p. Inr [Some '' cats, pets, animals '']),
      values_append = (\<lambda>r. Inr ()),
      values_get = Inr (Some sheet_ex),
      now = 1700000000\<rparr>"

definition env_extract_down :: env where
  "env_extract_down = env_ex\<lparr>chat_create := (\<lambda>p. Inl (ServiceError ''429 rate limit''))\<rparr>"

definition env_store_down :: env where
  "env_store_down =
     env_ex\<lparr>values_append := (\<lambda>r. Inl (ServiceError ''403 forbidden'')),
            values_get := Inl (ServiceError ''403 forbidden'')\<rparr>"

definition sheet_bare :: "row list" where
  "sheet_bare =
     [[''Timestamp'', ''URL'', ''Title'', ''Tags''],
      [''2024-01-02'', ''http://b.com'']]"

definition env_bare :: env where
  "env_bare = env_ex\<lparr>values_get := Inr (Some sheet_bare)\<rparr>"

definition sheet_ragged :: "row list" where
  "sheet_ragged =
     [[''Timestamp'', ''URL'', ''Title'', ''Tags''],
      [''2024-01-05'', ''http://d.com''],
      [''2024-01-06'', ''http://e.com'', ''Dogs'']]"

definition env_ragged :: env where
  "env_ragged = env_ex\<lparr>values_get := Inr (Some sheet_ragged)\<rparr>"

definition save_req :: "string \<Rightarrow> request" where
  "save_req content =
     \<lparr>req_method = POST,
      req_body =
        [(''action'', JStr ''saveDocument''),
         (''data'', JObj [(''url'', JStr ''http://a.com''), (''title'', JStr ''Foo''),
                          (''content'', JStr content)])]\<rparr>"

definition search_req :: "string \<Rightarrow> request" where
  "search_req q =
     \<lparr>req_method = POST,
      req_body = [(''action'', JStr ''searchDocuments''), (''data'', JObj [(''query'', JStr q)])]\<rparr>"

section \<open>Properties\<close>

subsection \<open>Facts about the helper functions\<close>

lemmas route_defs =
  api_route_def api_handler_def json_def error_obj_def field_def get_prop_def nullish_def

lemmas example_defs =
  env_ex_def env_extract_down_def env_store_down_def env_bare_def env_ragged_def
  save_req_def search_req_def sheet_ex_def sheet_bare_def sheet_ragged_def

lemma tags_try_calls:
  "snd (tags_try env c) = (case c of JStr text \<Rightarrow> [ChatCreate (prompt_of text)] | _ \<Rightarrow> [])"
  by (cases c) (simp_all add: tags_try_def split: sum.splits)

lemma getTags_failure:
  assumes "fst (tags_try env c) = Inl e"
  shows "getTagsFromOpenAI env c = (error_obj (''OpenAI Error: '' @ message e), snd (tags_try env c))"
  using assms by (cases "tags_try env c") (simp add: getTagsFromOpenAI_def)

lemma getTags_success:
  assumes "fst (tags_try env c) = Inr t"
  shows "getTagsFromOpenAI env c = (JStr t, snd (tags_try env c))"
  using assms by (cases "tags_try env c") (simp add: getTagsFromOpenAI_def)

lemma saveDocument_nullish:
  "nullish data \<Longrightarrow> \<exists>e. saveDocument env data = (Inl e, [])"
  by (simp add: saveDocument_def)

lemma saveDocument_failure:
  assumes "\<not> nullish data" and "fst (tags_try env (js_prop data ''content'')) = Inl e"
  shows "saveDocument env data =
           (Inr (error_obj (''OpenAI Error: '' @ message e)),
            snd (tags_try env (js_prop data ''content'')))"
  using assms by (simp add: saveDocument_def getTags_failure error_obj_def field_def)

lemma saveDocument_success:
  assumes "\<not> nullish data" and "fst (tags_try env (js_prop data ''content'')) = Inr t"
  shows "saveDocument env data =
           (case values_append env
                   [CDate (now env), CVal (js_prop data ''url''), CVal (js_prop data ''title''),
                    CVal (JStr t)] of
              Inl e \<Rightarrow> Inl e
            | Inr u \<Rightarrow> Inr (JObj [(''status'', JStr ''success''),
                                 (''message'', JStr ''Document saved!''),
                                 (''tags'', JStr t)]),
            snd (tags_try env (js_prop data ''content'')) @
              [ValuesAppend [CDate (now env), CVal (js_prop data ''url''),
                             CVal (js_prop data ''title''), CVal (JStr t)]])"
  using assms by (simp add: saveDocument_def getTags_success split: sum.splits)

lemma tags_try_rejected:
  "chat_create env (prompt_of text) = Inl e \<Longrightarrow>
   tags_try env (JStr text) = (Inl e, [ChatCreate (prompt_of text)])"
  by (simp add: tags_try_def)

lemma tags_try_answered:
  "chat_create env (prompt_of text) = Inr (Some c # rest) \<Longrightarrow>
   tags_try env (JStr text) = (Inr (trim c), [ChatCreate (prompt_of text)])"
  by (simp add: tags_try_def first_content_def)

lemma content_string_not_nullish: "js_prop data k = JStr s \<Longrightarrow> \<not> nullish data"
  by (cases data) (simp_all add: nullish_def)

subsection \<open>Unrecognised actions\<close>

text \<open>
  C6. A POST request whose \<^verbatim>\<open>action\<close> is absent, or is anything but one of the two
  recognised strings, is answered with HTTP status 400 and the body
  \<^verbatim>\<open>{status: 'error', message: 'Invalid action'}\<close>, and neither external service is called:
  the list of calls is empty.
\<close>

theorem invalid_action_400:
  assumes "req_method req = POST"
    and "field (req_body req) ''action'' \<noteq> JStr ''saveDocument''"
    and "field (req_body req) ''action'' \<noteq> JStr ''searchDocuments''"
  shows "api_route env req =
           Some (\<lparr>res_status = 400, res_headers = cors_headers,
                  res_body = Some (JObj [(''status'', JStr ''error''),
                                         (''message'', JStr ''Invalid action'')])\<rparr>, [])"
  using assms by (simp add: api_route_def api_handler_def json_def error_obj_def)

text \<open>An unknown action, and a body without an action.\<close>

theorem invalid_action_400_witness:
  "api_route env_ex \<lparr>req_method = POST, req_body = [(''action'', JStr ''deleteDocument'')]\<rparr> =
     Some (\<lparr>res_status = 400, res_headers = cors_headers,
            res_body = Some (JObj [(''status'', JStr ''error''),
                                   (''message'', JStr ''Invalid action'')])\<rparr>, [])
   \<and> api_route env_ex \<lparr>req_method = POST, req_body = []\<rparr> =
     Some (\<lparr>res_status = 400, res_headers = cors_headers,
            res_body = Some (JObj [(''status'', JStr ''error''),
                                   (''message'', JStr ''Invalid action'')])\<rparr>, [])"
  using invalid_action_400 [of "\<lparr>req_method = POST, req_body = [(''action'', JStr ''deleteDocument'')]\<rparr>" env_ex]
    invalid_action_400 [of "\<lparr>req_method = POST, req_body = []\<rparr>" env_ex]
  by (simp add: field_def)

subsection \<open>Extraction failure\<close>

text \<open>
  C1. When the chat-completion call of a \<^verbatim>\<open>saveDocument\<close> request fails with an error \<open>e\<close>,
  the response body is \<^verbatim>\<open>{status: 'error', message: 'OpenAI Error: ' + e.message}\<close>, and the
  calls made contain no append to the sheet.
\<close>

theorem save_extraction_failure:
  assumes "req_method req = POST"
    and "field (req_body req) ''action'' = JStr ''saveDocument''"
    and "js_prop (field (req_body req) ''data'') ''content'' = JStr text"
    and "chat_create env (prompt_of text) = Inl e"
  shows "\<exists>resp tr. api_route env req = Some (resp, tr)
           \<and> res_body resp = Some (JObj [(''status'', JStr ''error''),
                                         (''message'', JStr (''OpenAI Error: '' @ message e))])
           \<and> (\<forall>r. ValuesAppend r \<notin> set tr)"
proof -
  let ?data = "field (req_body req) ''data''"
  have nn: "\<not> nullish ?data"
    using assms(3) by (rule content_string_not_nullish)
  have tt: "tags_try env (js_prop ?data ''content'') = (Inl e, [ChatCreate (prompt_of text)])"
    using assms(3,4) by (simp add: tags_try_rejected)
  have "saveDocument env ?data =
          (Inr (error_obj (''OpenAI Error: '' @ message e)), [ChatCreate (prompt_of text)])"
    using saveDocument_failure [OF nn, of env e] tt by simp
  then show ?thesis
    using assms(1,2) by (simp add: api_route_def api_handler_def json_def error_obj_def)
qed

theorem save_extraction_failure_witness:
  "\<exists>resp tr. api_route env_extract_down (save_req ''long article about cats'') = Some (resp, tr)
     \<and> res_body resp = Some (JObj [(''status'', JStr ''error''),
                                   (''message'', JStr ''OpenAI Error: 429 rate limit'')])
     \<and> (\<forall>r. ValuesAppend r \<notin> set tr)"
  using save_extraction_failure [of "save_req ''long article about cats''"
      "''long article about cats''" env_extract_down "ServiceError ''429 rate limit''"]
  by (simp add: save_req_def env_extract_down_def env_ex_def field_def)


subsection \<open>Successful extraction\<close>

lemma tags_try_tags:
  assumes "fst (tags_try env v) = Inr t"
  shows "\<exists>text c rest. v = JStr text \<and> chat_create env (prompt_of text) = Inr (Some c # rest)
           \<and> t = trim c"
  using assms
  by (cases v)
     (auto simp: tags_try_def first_content_def split: sum.splits list.splits option.splits)

text \<open>
  C7, as the code has it. When the completion call of a \<^verbatim>\<open>saveDocument\<close> request answers
  with a first choice of content \<open>c\<close>, the calls made are exactly two, the completion call
  and then one append of the row \<^verbatim>\<open>[new Date(), url, title, tags]\<close> with \<open>tags = trim c\<close>.
  The response is \<^verbatim>\<open>{status: 'success', message: 'Document saved!', tags}\<close> when the append
  call itself succeeds; the success response is not promised when the append is refused.
\<close>

theorem save_success:
  assumes "req_method req = POST"
    and "field (req_body req) ''action'' = JStr ''saveDocument''"
    and "js_prop (field (req_body req) ''data'') ''content'' = JStr text"
    and "chat_create env (prompt_of text) = Inr (Some c # rest)"
  shows "\<exists>resp. api_route env req =
           Some (resp,
                 [ChatCreate (prompt_of text),
                  ValuesAppend [CDate (now env),
                                CVal (js_prop (field (req_body req) ''data'') ''url''),
                                CVal (js_prop (field (req_body req) ''data'') ''title''),
                                CVal (JStr (trim c))]])
           \<and> (values_append env
                  [CDate (now env),
                   CVal (js_prop (field (req_body req) ''data'') ''url''),
                   CVal (js_prop (field (req_body req) ''data'') ''title''),
                   CVal (JStr (trim c))] = Inr ()
                \<longrightarrow> resp = \<lparr>res_status = 200, res_headers = cors_headers,
                             res_body = Some (JObj [(''status'', JStr ''success''),
                                                    (''message'', JStr ''Document saved!''),
                                                    (''tags'', JStr (trim c))])\<rparr>)"
proof -
  let ?data = "field (req_body req) ''data''"
  have nn: "\<not> nullish ?data"
    using assms(3) by (rule content_string_not_nullish)
  have tt: "tags_try env (js_prop ?data ''content'') = (Inr (trim c), [ChatCreate (prompt_of text)])"
    using assms(3,4) by (simp add: tags_try_answered)
  then have ft: "fst (tags_try env (js_prop ?data ''content'')) = Inr (trim c)"
    by simp
  show ?thesis
    using assms(1,2) saveDocument_success [OF nn ft] tt
    by (cases "values_append env [CDate (now env), CVal (js_prop ?data ''url''),
                                  CVal (js_prop ?data ''title''), CVal (JStr (trim c))]")
       (simp_all add: api_route_def api_handler_def json_def)
qed

text \<open>The example of the specification: content about cats, tags trimmed from the answer.\<close>

theorem save_success_witness:
  "api_route env_ex (save_req ''long article about cats'') =
     Some (\<lparr>res_status = 200, res_headers = cors_headers,
            res_body = Some (JObj [(''status'', JStr ''success''),
                                   (''message'', JStr ''Document saved!''),
                                   (''tags'', JStr ''cats, pets, animals'')])\<rparr>,
           [ChatCreate (prompt_of ''long article about cats''),
            ValuesAppend [CDate 1700000000, CVal (JStr ''http://a.com''), CVal (JStr ''Foo''),
                          CVal (JStr ''cats, pets, animals'')]])"
  using save_success [of "save_req ''long article about cats''" "''long article about cats''"
      env_ex "'' cats, pets, animals ''" "[]"]
  by (auto simp add: save_req_def env_ex_def field_def trim_def is_space_def)

text \<open>
  C7 as stated fails when the sheet refuses the append: extraction has succeeded, the append
  was attempted, and the response is the 500 error, not a success.
\<close>

theorem save_success_counterexample:
  "chat_create env_store_down (prompt_of ''long article about cats'') =
     Inr [Some '' cats, pets, animals '']
   \<and> api_route env_store_down (save_req ''long article about cats'') =
     Some (\<lparr>res_status = 500, res_headers = cors_headers,
            res_body = Some (JObj [(''status'', JStr ''error''),
                                   (''message'', JStr ''403 forbidden'')])\<rparr>,
           [ChatCreate (prompt_of ''long article about cats''),
            ValuesAppend [CDate 1700000000, CVal (JStr ''http://a.com''), CVal (JStr ''Foo''),
                          CVal (JStr ''cats, pets, animals'')]])"
  by (simp add: route_defs example_defs saveDocument_def getTagsFromOpenAI_def tags_try_def
      first_content_def trim_def is_space_def)

subsection \<open>What is sent and what is stored\<close>

text \<open>
  C8. In a \<^verbatim>\<open>saveDocument\<close> request, every completion call carries the prompt built from
  the first 2000 characters of the \<^verbatim>\<open>content\<close> string, such a call is made whenever the
  content is a string, and every appended row is \<^verbatim>\<open>[new Date(), url, title, tags]\<close> with the
  tags trimmed from the service's answer: no cell of the row is taken from the content.
\<close>

theorem save_sends_prefix_stores_no_content:
  assumes "req_method req = POST"
    and "field (req_body req) ''action'' = JStr ''saveDocument''"
    and "api_route env req = Some (resp, tr)"
  shows "(\<forall>p. ChatCreate p \<in> set tr \<longrightarrow>
            (\<exists>text. js_prop (field (req_body req) ''data'') ''content'' = JStr text
               \<and> p = ''Generate 5-10 comma-separated keywords for: \"'' @ take 2000 text @ ''\"''))
       \<and> (\<forall>text. js_prop (field (req_body req) ''data'') ''content'' = JStr text \<longrightarrow>
            ChatCreate (''Generate 5-10 comma-separated keywords for: \"'' @ take 2000 text @ ''\"'')
              \<in> set tr)
       \<and> (\<forall>r. ValuesAppend r \<in> set tr \<longrightarrow>
            (\<exists>text c rest. js_prop (field (req_body req) ''data'') ''content'' = JStr text
               \<and> chat_create env (prompt_of text) = Inr (Some c # rest)
               \<and> r = [CDate (now env),
                      CVal (js_prop (field (req_body req) ''data'') ''url''),
                      CVal (js_prop (field (req_body req) ''data'') ''title''),
                      CVal (JStr (trim c))]))"
proof -
  let ?data = "field (req_body req) ''data''"
  let ?content = "js_prop ?data ''content''"
  have route: "tr = snd (saveDocument env ?data)"
    using assms by (auto simp: api_route_def api_handler_def split: prod.splits sum.splits)
  have shape: "prompt_of s =
          ''Generate 5-10 comma-separated keywords for: \"'' @ take 2000 s @ ''\"''"
    for s by (simp add: prompt_of_def substring_def)
  show ?thesis
  proof (cases "nullish ?data")
    case True
    then have "tr = []"
      using route saveDocument_nullish [of ?data env] by auto
    moreover have "?content = JUndefined"
      using True by (auto simp: nullish_def)
    ultimately show ?thesis by simp
  next
    case nn: False
    show ?thesis
    proof (cases "fst (tags_try env ?content)")
      case (Inl e)
      then have "tr = snd (tags_try env ?content)"
        using route saveDocument_failure [OF nn] by simp
      then show ?thesis
        by (cases ?content) (simp_all add: tags_try_calls shape)
    next
      case (Inr t)
      from tags_try_tags [OF Inr] obtain s c rest where
        v: "?content = JStr s" and a: "chat_create env (prompt_of s) = Inr (Some c # rest)"
        and t: "t = trim c" by blast
      have "tr = snd (tags_try env ?content) @
                   [ValuesAppend [CDate (now env), CVal (js_prop ?data ''url''),
                                  CVal (js_prop ?data ''title''), CVal (JStr t)]]"
        using route saveDocument_success [OF nn Inr] by simp
      then show ?thesis
        using v a t by (simp add: tags_try_calls shape)
    qed
  qed
qed

text \<open>A content of 2500 characters: 2000 of them reach the service, none reaches the row.\<close>

theorem save_sends_prefix_stores_no_content_witness:
  "ChatCreate (''Generate 5-10 comma-separated keywords for: \"'' @ replicate 2000 (CHR ''a'') @ ''\"'')
     \<in> set (snd (the (api_route env_ex (save_req (replicate 2500 (CHR ''a''))))))
   \<and> ValuesAppend [CDate 1700000000, CVal (JStr ''http://a.com''), CVal (JStr ''Foo''),
                   CVal (JStr ''cats, pets, animals'')]
     \<in> set (snd (the (api_route env_ex (save_req (replicate 2500 (CHR ''a''))))))"
proof -
  obtain resp tr where r: "api_route env_ex (save_req (replicate 2500 (CHR ''a''))) = Some (resp, tr)"
    by (cases "api_route env_ex (save_req (replicate 2500 (CHR ''a'')))")
       (auto simp: api_route_def save_req_def)
  have m: "req_method (save_req (replicate 2500 (CHR ''a''))) = POST"
    and a: "field (req_body (save_req (replicate 2500 (CHR ''a'')))) ''action'' = JStr ''saveDocument''"
    by (simp_all add: save_req_def field_def)
  have c: "js_prop (field (req_body (save_req (replicate 2500 (CHR ''a'')))) ''data'') ''content''
             = JStr (replicate 2500 (CHR ''a''))"
    by (simp add: save_req_def field_def)
  have sent: "ChatCreate (''Generate 5-10 comma-separated keywords for: \"'' @ replicate 2000 (CHR ''a'') @ ''\"'')
                \<in> set tr"
    using save_sends_prefix_stores_no_content [OF m a r] c by simp
  have "tr = [ChatCreate (prompt_of (replicate 2500 (CHR ''a''))),
              ValuesAppend [CDate 1700000000, CVal (JStr ''http://a.com''), CVal (JStr ''Foo''),
                            CVal (JStr ''cats, pets, animals'')]]"
    using r
    by (simp add: route_defs example_defs saveDocument_def getTagsFromOpenAI_def tags_try_def
        first_content_def trim_def is_space_def)
  then show ?thesis
    using r sent by simp
qed

subsection \<open>Failure responses and their status codes\<close>

text \<open>
  C3, as the code has it. The response to a POST request, failure by failure:
  \<^item> an action that is not recognised: 400 and \<^verbatim>\<open>{status: 'error', message: 'Invalid action'}\<close>;
  \<^item> \<^verbatim>\<open>saveDocument\<close> with \<^verbatim>\<open>data\<close> absent or null: 500 and an error body;
  \<^item> \<^verbatim>\<open>saveDocument\<close> whose \<^verbatim>\<open>try\<close> block in \<^verbatim>\<open>getTagsFromOpenAI\<close> throws \<open>e\<close> (the completion
    call is refused, its answer has no content, or \<^verbatim>\<open>content\<close> is not a string): status 200
    and \<^verbatim>\<open>{status: 'error', message: 'OpenAI Error: ' + e.message}\<close>, the error object that
    \<^verbatim>\<open>saveDocument\<close> returns as its result;
  \<^item> \<^verbatim>\<open>saveDocument\<close> with tags extracted and the append refused with \<open>e\<close>: 500 and
    \<^verbatim>\<open>{status: 'error', message: e.message}\<close>;
  \<^item> \<^verbatim>\<open>searchDocuments\<close> with \<^verbatim>\<open>data\<close> absent or null: 500 and an error body;
  \<^item> \<^verbatim>\<open>searchDocuments\<close> with the read of the sheet refused with \<open>e\<close>: 500 and
    \<^verbatim>\<open>{status: 'error', message: e.message}\<close>;
  \<^item> \<^verbatim>\<open>searchDocuments\<close> with the sheet read and a query that is not a string: 500 and an
    error body.

  These are all the failures: a response whose body has \<^verbatim>\<open>status: 'error'\<close> is exactly
  \<^verbatim>\<open>{status: 'error', message: m}\<close> for a string \<open>m\<close>, with status 400 for an unrecognised
  action, 200 for a failed extraction and 500 otherwise.
\<close>

theorem failure_response_status:
  assumes "req_method req = POST"
    and "api_route env req = Some (resp, tr)"
  shows "(field (req_body req) ''action'' \<noteq> JStr ''saveDocument''
            \<and> field (req_body req) ''action'' \<noteq> JStr ''searchDocuments''
          \<longrightarrow> resp = \<lparr>res_status = 400, res_headers = cors_headers,
                       res_body = Some (JObj [(''status'', JStr ''error''),
                                              (''message'', JStr ''Invalid action'')])\<rparr>)
       \<and> (field (req_body req) ''action'' = JStr ''saveDocument''
            \<and> nullish (field (req_body req) ''data'')
          \<longrightarrow> res_status resp = 500
              \<and> (\<exists>m. res_body resp = Some (JObj [(''status'', JStr ''error''),
                                                  (''message'', JStr m)])))
       \<and> (\<forall>e. field (req_body req) ''action'' = JStr ''saveDocument''
            \<and> \<not> nullish (field (req_body req) ''data'')
            \<and> fst (tags_try env (js_prop (field (req_body req) ''data'') ''content'')) = Inl e
          \<longrightarrow> resp = \<lparr>res_status = 200, res_headers = cors_headers,
                       res_body = Some (JObj [(''status'', JStr ''error''),
                                              (''message'', JStr (''OpenAI Error: '' @ message e))])\<rparr>)
       \<and> (\<forall>t e. field (req_body req) ''action'' = JStr ''saveDocument''
            \<and> \<not> nullish (field (req_body req) ''data'')
            \<and> fst (tags_try env (js_prop (field (req_body req) ''data'') ''content'')) = Inr t
            \<and> values_append env
                 [CDate (now env), CVal (js_prop (field (req_body req) ''data'') ''url''),
                  CVal (js_prop (field (req_body req) ''data'') ''title''), CVal (JStr t)] = Inl e
          \<longrightarrow> resp = \<lparr>res_status = 500, res_headers = cors_headers,
                       res_body = Some (JObj [(''status'', JStr ''error''),
                                              (''message'', JStr (message e))])\<rparr>)
       \<and> (field (req_body req) ''action'' = JStr ''searchDocuments''
            \<and> nullish (field (req_body req) ''data'')
          \<longrightarrow> res_status resp = 500
              \<and> (\<exists>m. res_body resp = Some (JObj [(''status'', JStr ''error''),
                                                  (''message'', JStr m)])))
       \<and> (\<forall>e. field (req_body req) ''action'' = JStr ''searchDocuments''
            \<and> \<not> nullish (field (req_body req) ''data'')
            \<and> values_get env = Inl e
          \<longrightarrow> resp = \<lparr>res_status = 500, res_headers = cors_headers,
                       res_body = Some (JObj [(''status'', JStr ''error''),
                                              (''message'', JStr (message e))])\<rparr>)
       \<and> (\<forall>values. field (req_body req) ''action'' = JStr ''searchDocuments''
            \<and> \<not> nullish (field (req_body req) ''data'')
            \<and> values_get env = Inr values
            \<and> (\<forall>q. js_prop (field (req_body req) ''data'') ''query'' \<noteq> JStr q)
          \<longrightarrow> res_status resp = 500
              \<and> (\<exists>m. res_body resp = Some (JObj [(''status'', JStr ''error''),
                                                  (''message'', JStr m)])))
       \<and> (\<forall>b. res_body resp = Some b \<and> js_prop b ''status'' = JStr ''error''
          \<longrightarrow> (\<exists>m. b = JObj [(''status'', JStr ''error''), (''message'', JStr m)])
              \<and> res_status resp =
                  (if field (req_body req) ''action'' \<noteq> JStr ''saveDocument''
                      \<and> field (req_body req) ''action'' \<noteq> JStr ''searchDocuments'' then 400
                   else if field (req_body req) ''action'' = JStr ''saveDocument''
                      \<and> \<not> nullish (field (req_body req) ''data'')
                      \<and> isl (fst (tags_try env
                                (js_prop (field (req_body req) ''data'') ''content'')))
                   then 200
                   else 500))"
proof -
  let ?action = "field (req_body req) ''action''"
  let ?data = "field (req_body req) ''data''"
  let ?content = "js_prop ?data ''content''"
  have handler: "api_handler env req = (resp, tr)"
    using assms by (simp add: api_route_def)
  have ne: "JStr ''searchDocuments'' \<noteq> JStr ''saveDocument''"
    by simp
  have invalid: "resp = \<lparr>res_status = 400, res_headers = cors_headers,
                       res_body = Some (JObj [(''status'', JStr ''error''),
                                              (''message'', JStr ''Invalid action'')])\<rparr>"
    if "?action \<noteq> JStr ''saveDocument''" and "?action \<noteq> JStr ''searchDocuments''"
    using handler assms(1) that by (auto simp: api_handler_def json_def error_obj_def)
  have save_null: "res_status resp = 500
      \<and> (\<exists>m. res_body resp = Some (JObj [(''status'', JStr ''error''), (''message'', JStr m)]))"
    if save: "?action = JStr ''saveDocument''" and null: "nullish ?data"
  proof -
    obtain e where "saveDocument env ?data = (Inl e, [])"
      using saveDocument_nullish [OF null] by blast
    then show ?thesis
      using handler assms(1) save by (auto simp: api_handler_def json_def error_obj_def)
  qed
  have extraction: "resp = \<lparr>res_status = 200, res_headers = cors_headers,
        res_body = Some (JObj [(''status'', JStr ''error''),
                               (''message'', JStr (''OpenAI Error: '' @ message e))])\<rparr>"
    if "?action = JStr ''saveDocument''" and "\<not> nullish ?data" and "fst (tags_try env ?content) = Inl e"
    for e
    using handler assms(1) that(1) saveDocument_failure [OF that(2,3)]
    by (auto simp: api_handler_def json_def error_obj_def)
  have append_refused: "resp = \<lparr>res_status = 500, res_headers = cors_headers,
        res_body = Some (JObj [(''status'', JStr ''error''), (''message'', JStr (message e))])\<rparr>"
    if "?action = JStr ''saveDocument''" and "\<not> nullish ?data" and "fst (tags_try env ?content) = Inr t"
      and "values_append env [CDate (now env), CVal (js_prop ?data ''url''),
                          CVal (js_prop ?data ''title''), CVal (JStr t)] = Inl e"
    for t e
    using handler assms(1) that(1,4) saveDocument_success [OF that(2,3)]
    by (auto simp: api_handler_def json_def error_obj_def)
  have search_null: "res_status resp = 500
      \<and> (\<exists>m. res_body resp = Some (JObj [(''status'', JStr ''error''), (''message'', JStr m)]))"
    if "?action = JStr ''searchDocuments''" and "nullish ?data"
    using handler assms(1) that ne
    by (auto simp: api_handler_def json_def error_obj_def get_prop_def)
  have read_refused: "resp = \<lparr>res_status = 500, res_headers = cors_headers,
        res_body = Some (JObj [(''status'', JStr ''error''), (''message'', JStr (message e))])\<rparr>"
    if "?action = JStr ''searchDocuments''" and "\<not> nullish ?data" and "values_get env = Inl e"
    for e
    using handler assms(1) that ne
    by (auto simp: api_handler_def json_def error_obj_def get_prop_def searchDocuments_def)
  have bad_query: "res_status resp = 500
      \<and> (\<exists>m. res_body resp = Some (JObj [(''status'', JStr ''error''), (''message'', JStr m)]))"
    if "?action = JStr ''searchDocuments''" and "\<not> nullish ?data" and "values_get env = Inr vs"
      and "\<forall>q. js_prop ?data ''query'' \<noteq> JStr q"
    for vs
    using handler assms(1) that ne
    by (cases "js_prop ?data ''query''")
       (auto simp: api_handler_def json_def error_obj_def get_prop_def searchDocuments_def)
  have only: "(\<exists>m. b = JObj [(''status'', JStr ''error''), (''message'', JStr m)])
       \<and> res_status resp =
           (if ?action \<noteq> JStr ''saveDocument'' \<and> ?action \<noteq> JStr ''searchDocuments'' then 400
            else if ?action = JStr ''saveDocument'' \<and> \<not> nullish ?data
               \<and> isl (fst (tags_try env ?content))
            then 200
            else 500)"
    if body: "res_body resp = Some b" and err: "js_prop b ''status'' = JStr ''error''" for b
  proof -
    consider (save) "?action = JStr ''saveDocument''"
      | (search) "?action = JStr ''searchDocuments''"
      | (other) "?action \<noteq> JStr ''saveDocument''" "?action \<noteq> JStr ''searchDocuments''"
      by blast
    then show ?thesis
    proof cases
      case other
      then show ?thesis
        using invalid body by auto
    next
      case search
      show ?thesis
        using handler assms(1) body err search ne
        by (auto simp: api_handler_def json_def error_obj_def searchDocuments_def field_def
            split: sum.splits prod.splits jsval.splits if_splits)
    next
      case save
      show ?thesis
      proof (cases "nullish ?data")
        case True
        then show ?thesis
          using save_null [OF save True] body save by auto
      next
        case nn: False
        show ?thesis
        proof (cases "fst (tags_try env ?content)")
          case (Inl e)
          then show ?thesis
            using extraction [OF save nn Inl] body save nn by auto
        next
          case (Inr t)
          then show ?thesis
            using handler assms(1) body err save nn saveDocument_success [OF nn Inr]
            by (auto simp: api_handler_def json_def error_obj_def field_def split: sum.splits)
        qed
      qed
    qed
  qed
  have c1: "?action \<noteq> JStr ''saveDocument'' \<and> ?action \<noteq> JStr ''searchDocuments''
          \<longrightarrow> resp = \<lparr>res_status = 400, res_headers = cors_headers,
                       res_body = Some (JObj [(''status'', JStr ''error''),
                                              (''message'', JStr ''Invalid action'')])\<rparr>"
    by (intro impI, elim conjE, rule invalid)
  have c2: "?action = JStr ''saveDocument'' \<and> nullish ?data
          \<longrightarrow> res_status resp = 500
              \<and> (\<exists>m. res_body resp = Some (JObj [(''status'', JStr ''error''),
                                                  (''message'', JStr m)]))"
    by (intro impI, elim conjE, rule save_null)
  have c3: "\<forall>e. ?action = JStr ''saveDocument'' \<and> \<not> nullish ?data
            \<and> fst (tags_try env ?content) = Inl e
          \<longrightarrow> resp = \<lparr>res_status = 200, res_headers = cors_headers,
                       res_body = Some (JObj [(''status'', JStr ''error''),
                                              (''message'', JStr (''OpenAI Error: '' @ message e))])\<rparr>"
    by (intro allI impI, elim conjE, rule extraction)
  have c4: "\<forall>t e. ?action = JStr ''saveDocument'' \<and> \<not> nullish ?data
            \<and> fst (tags_try env ?content) = Inr t
            \<and> values_append env
                 [CDate (now env), CVal (js_prop ?data ''url''),
                  CVal (js_prop ?data ''title''), CVal (JStr t)] = Inl e
          \<longrightarrow> resp = \<lparr>res_status = 500, res_headers = cors_headers,
                       res_body = Some (JObj [(''status'', JStr ''error''),
                                              (''message'', JStr (message e))])\<rparr>"
    by (intro allI impI, elim conjE, rule append_refused)
  have c5: "?action = JStr ''searchDocuments'' \<and> nullish ?data
          \<longrightarrow> res_status resp = 500
              \<and> (\<exists>m. res_body resp = Some (JObj [(''status'', JStr ''error''),
                                                  (''message'', JStr m)]))"
    by (intro impI, elim conjE, rule search_null)
  have c6: "\<forall>e. ?action = JStr ''searchDocuments'' \<and> \<not> nullish ?data
            \<and> values_get env = Inl e
          \<longrightarrow> resp = \<lparr>res_status = 500, res_headers = cors_headers,
                       res_body = Some (JObj [(''status'', JStr ''error''),
                                              (''message'', JStr (message e))])\<rparr>"
    by (intro allI impI, elim conjE, rule read_refused)
  have c7: "\<forall>values. ?action = JStr ''searchDocuments'' \<and> \<not> nullish ?data
            \<and> values_get env = Inr values
            \<and> (\<forall>q. js_prop ?data ''query'' \<noteq> JStr q)
          \<longrightarrow> res_status resp = 500
              \<and> (\<exists>m. res_body resp = Some (JObj [(''status'', JStr ''error''),
                                                  (''message'', JStr m)]))"
    by (intro allI impI, elim conjE, rule bad_query)
  have c8: "\<forall>b. res_body resp = Some b \<and> js_prop b ''status'' = JStr ''error''
          \<longrightarrow> (\<exists>m. b = JObj [(''status'', JStr ''error''), (''message'', JStr m)])
              \<and> res_status resp =
                  (if ?action \<noteq> JStr ''saveDocument'' \<and> ?action \<noteq> JStr ''searchDocuments''
                   then 400
                   else if ?action = JStr ''saveDocument'' \<and> \<not> nullish ?data
                      \<and> isl (fst (tags_try env ?content))
                   then 200
                   else 500)"
    by (intro allI impI, elim conjE, rule only)
  from c1 c2 c3 c4 c5 c6 c7 c8 show ?thesis
    by (intro conjI)
qed

text \<open>
  An unknown action, a refused completion call, a refused append, a refused read, and a
  request without \<^verbatim>\<open>data\<close>.
\<close>

theorem failure_response_status_witness:
  "fst (the (api_route env_ex \<lparr>req_method = POST, req_body = []\<rparr>)) =
     \<lparr>res_status = 400, res_headers = cors_headers,
      res_body = Some (JObj [(''status'', JStr ''error''),
                             (''message'', JStr ''Invalid action'')])\<rparr>
   \<and> fst (the (api_route env_extract_down (save_req ''notes''))) =
     \<lparr>res_status = 200, res_headers = cors_headers,
      res_body = Some (JObj [(''status'', JStr ''error''),
                             (''message'', JStr ''OpenAI Error: 429 rate limit'')])\<rparr>
   \<and> fst (the (api_route env_store_down (save_req ''notes''))) =
     \<lparr>res_status = 500, res_headers = cors_headers,
      res_body = Some (JObj [(''status'', JStr ''error''),
                             (''message'', JStr ''403 forbidden'')])\<rparr>
   \<and> fst (the (api_route env_store_down (search_req ''cats''))) =
     \<lparr>res_status = 500, res_headers = cors_headers,
      res_body = Some (JObj [(''status'', JStr ''error''),
                             (''message'', JStr ''403 forbidden'')])\<rparr>
   \<and> res_status (fst (the (api_route env_ex
         \<lparr>req_method = POST, req_body = [(''action'', JStr ''saveDocument'')]\<rparr>))) = 500"
proof -
  have routed: "\<exists>resp tr. api_route env req = Some (resp, tr)" if "req_method req = POST"
    for env req
    using that by (cases "api_handler env req") (simp add: api_route_def)
  have t2: "fst (tags_try env_extract_down (JStr ''notes'')) = Inl (ServiceError ''429 rate limit'')"
    by (simp add: tags_try_def example_defs)
  have t3: "fst (tags_try env_store_down (JStr ''notes'')) = Inr ''cats, pets, animals''"
    by (simp add: tags_try_def first_content_def example_defs trim_def is_space_def)
  have a3: "values_append env_store_down r = Inl (ServiceError ''403 forbidden'')" for r
    by (simp add: example_defs)
  have g4: "values_get env_store_down = Inl (ServiceError ''403 forbidden'')"
    by (simp add: example_defs)
  have m: "req_method \<lparr>req_method = POST, req_body = b\<rparr> = POST"
    "req_method (save_req c) = POST" "req_method (search_req q) = POST" for b c q
    by (simp_all add: save_req_def search_req_def)
  obtain resp1 tr1 where r1: "api_route env_ex \<lparr>req_method = POST, req_body = []\<rparr> = Some (resp1, tr1)"
    using routed [OF m(1)] by blast
  obtain resp2 tr2 where r2: "api_route env_extract_down (save_req ''notes'') = Some (resp2, tr2)"
    using routed [OF m(2)] by blast
  obtain resp3 tr3 where r3: "api_route env_store_down (save_req ''notes'') = Some (resp3, tr3)"
    using routed [OF m(2)] by blast
  obtain resp4 tr4 where r4: "api_route env_store_down (search_req ''cats'') = Some (resp4, tr4)"
    using routed [OF m(3)] by blast
  obtain resp5 tr5 where r5: "api_route env_ex
      \<lparr>req_method = POST, req_body = [(''action'', JStr ''saveDocument'')]\<rparr> = Some (resp5, tr5)"
    using routed [OF m(1)] by blast
  have "resp1 = \<lparr>res_status = 400, res_headers = cors_headers,
                 res_body = Some (JObj [(''status'', JStr ''error''),
                                        (''message'', JStr ''Invalid action'')])\<rparr>"
    using failure_response_status [OF m(1) r1] by (simp add: field_def)
  moreover have "resp2 = \<lparr>res_status = 200, res_headers = cors_headers,
                 res_body = Some (JObj [(''status'', JStr ''error''),
                                        (''message'', JStr ''OpenAI Error: 429 rate limit'')])\<rparr>"
    using failure_response_status [OF m(2) r2] t2
    by (simp add: field_def save_req_def nullish_def)
  moreover have "resp3 = \<lparr>res_status = 500, res_headers = cors_headers,
                 res_body = Some (JObj [(''status'', JStr ''error''),
                                        (''message'', JStr ''403 forbidden'')])\<rparr>"
    using failure_response_status [OF m(2) r3] t3 a3
    by (simp add: field_def save_req_def nullish_def)
  moreover have "resp4 = \<lparr>res_status = 500, res_headers = cors_headers,
                 res_body = Some (JObj [(''status'', JStr ''error''),
                                        (''message'', JStr ''403 forbidden'')])\<rparr>"
    using failure_response_status [OF m(3) r4] g4
    by (simp add: field_def search_req_def nullish_def)
  moreover have "res_status resp5 = 500"
    using failure_response_status [OF m(1) r5] by (simp add: field_def nullish_def)
  ultimately show ?thesis
    by (simp add: r1 r2 r3 r4 r5)
qed

text \<open>
  C3 as stated fails on an extraction failure: the response has the error body and the
  default status 200, not 500.
\<close>

theorem failure_response_status_counterexample:
  "api_route env_extract_down (save_req ''long article about cats'') =
     Some (\<lparr>res_status = 200, res_headers = cors_headers,
            res_body = Some (JObj [(''status'', JStr ''error''),
                                   (''message'', JStr ''OpenAI Error: 429 rate limit'')])\<rparr>,
           [ChatCreate (prompt_of ''long article about cats'')])
   \<and> res_status (fst (the (api_route env_extract_down (save_req ''long article about cats''))))
       \<noteq> 500"
  by (simp add: route_defs example_defs saveDocument_def getTagsFromOpenAI_def tags_try_def)

subsection \<open>Pre-flight requests\<close>

text \<open>
  The callback, were it run on an OPTIONS request, would answer 200 with the three
  cross-origin headers and no body, without reading the request body or calling a service.
\<close>

lemma api_handler_preflight:
  "req_method req = OPTIONS \<Longrightarrow>
   api_handler env req = (\<lparr>res_status = 200, res_headers = cors_headers, res_body = None\<rparr>, [])"
  by (simp add: api_handler_def)

text \<open>
  C4 does not hold of the route. The callback is registered with \<^verbatim>\<open>app.post\<close>, so an OPTIONS
  request to \<^verbatim>\<open>/api\<close> never reaches it, whatever its body: the branch for pre-flight
  requests is dead code, and the cross-origin headers are not set by this program.
\<close>

theorem preflight_not_routed:
  "api_route env \<lparr>req_method = OPTIONS, req_body = b\<rparr> = None"
  by (simp add: api_route_def)

subsection \<open>The search loop\<close>

lemma str_includes_sublist: "str_includes hay needle = sublist needle hay"
  by (induction hay) (auto simp: sublist_Cons_right)

lemma toLowerCase_Nil: "toLowerCase [] = []"
  by (simp add: toLowerCase_def)

lemma toLowerCase_Nil_iff: "toLowerCase q = [] \<longleftrightarrow> q = []"
  by (simp add: toLowerCase_def)

lemma lowered_cell_at: "lowered (cell_at r j) = toLowerCase (cell_text r j)"
  by (simp add: cell_at_def cell_text_def toLowerCase_def)

lemma row_matches_iff: "row_matches (toLowerCase q) r = matches_missing_as_empty q r"
  by (simp add: row_matches_def matches_missing_as_empty_def str_includes_sublist lowered_cell_at)

text \<open>The loop appends, to what it has, the records of the matching rows from \<open>i\<close> on.\<close>

lemma search_loop_filter:
  "search_loop data q i acc = acc @ map record_of (filter (row_matches q) (drop i data))"
proof (induction data q i acc rule: search_loop.induct)
  case (1 data q i results)
  show ?case
  proof (cases "i < length data")
    case True
    then have d: "drop i data = data ! i # drop (Suc i) data"
      by (simp add: Cons_nth_drop_Suc)
    show ?thesis
      using True 1 by (subst search_loop.simps) (simp add: d)
  next
    case False
    then show ?thesis
      by (subst search_loop.simps) simp
  qed
qed

lemma searchDocuments_results:
  assumes "values_get env = Inr values"
  shows "searchDocuments env (JStr q) =
           (Inr (JObj [(''status'', JStr ''success''),
                       (''results'',
                        JArr (take 50 (map record_of
                          (filter (row_matches (toLowerCase q)) (drop 1 (or_empty values))))))]),
            [ValuesGet])"
  using assms by (simp add: searchDocuments_def search_loop_filter)

text \<open>The route hands \<^verbatim>\<open>data.query\<close> to the search and sends its result with status 200.\<close>

lemma route_search:
  assumes "req_method req = POST"
    and "field (req_body req) ''action'' = JStr ''searchDocuments''"
    and "js_prop (field (req_body req) ''data'') ''query'' = JStr q"
    and "values_get env = Inr values"
  shows "\<exists>result. searchDocuments env (JStr q) = (Inr result, [ValuesGet])
           \<and> api_route env req = Some (json 200 result, [ValuesGet])"
proof -
  have "\<not> nullish (field (req_body req) ''data'')"
    using assms(3) by (rule content_string_not_nullish)
  then show ?thesis
    using assms searchDocuments_results [OF assms(4), of q]
    by (simp add: api_route_def api_handler_def get_prop_def)
qed

lemma drop_as_nth: "drop i xs = map ((!) xs) [i..<length xs]"
  by (simp add: list_eq_iff_nth_eq)

lemma filter_drop_indices:
  "filter P (drop i xs) = map ((!) xs) (filter (\<lambda>j. P (xs ! j)) [i..<length xs])"
  by (subst drop_as_nth) (simp add: filter_map comp_def)

lemma matched_indices:
  "take n (map f (filter P (drop i xs))) =
     map (\<lambda>j. f (xs ! j)) (take n (filter (\<lambda>j. P (xs ! j)) [i..<length xs]))"
  by (simp add: filter_drop_indices take_map comp_def)

lemma matched_record_fields:
  assumes "row_matches (toLowerCase q) r"
  shows "contains_ci (cell_at r 2) q \<or> contains_ci (cell_at r 3) q
           \<or> (q = [] \<and> cell_at r 2 = JUndefined \<and> cell_at r 3 = JUndefined)"
  using assms
  by (auto simp: row_matches_def str_includes_sublist cell_at_def contains_ci_def
      toLowerCase_Nil toLowerCase_Nil_iff split: if_splits)

lemma record_of_fields:
  "js_prop (record_of r) ''url'' = cell_at r 1"
  "js_prop (record_of r) ''title'' = cell_at r 2"
  "js_prop (record_of r) ''tags'' = cell_at r 3"
  by (simp_all add: record_of_def field_def)

subsection \<open>Search results: size, matching, header row\<close>

text \<open>
  C2, as the code has it. When the sheet is read and the query is a string, the search returns
  at most 50 records; every record is built from a row of index at least 1, so never from
  the header row; and in every record the title or the tags is a string that contains the
  query case-insensitively, or else the query is empty and the record has neither a title
  nor tags.
\<close>

theorem search_bounded_matching:
  assumes "values_get env = Inr values"
  shows "\<exists>rs is.
           searchDocuments env (JStr q) =
             (Inr (JObj [(''status'', JStr ''success''), (''results'', JArr rs)]), [ValuesGet])
           \<and> length rs \<le> 50
           \<and> (\<forall>r\<in>set rs.
                 contains_ci (js_prop r ''title'') q \<or> contains_ci (js_prop r ''tags'') q
                   \<or> (q = [] \<and> js_prop r ''title'' = JUndefined \<and> js_prop r ''tags'' = JUndefined))
           \<and> rs = map (\<lambda>i. record_of (or_empty values ! i)) is
           \<and> (\<forall>i\<in>set is. 1 \<le> i \<and> i < length (or_empty values))"
proof -
  let ?data = "or_empty values"
  let ?P = "\<lambda>j. row_matches (toLowerCase q) (?data ! j)"
  let ?is = "take 50 (filter ?P [1..<length ?data])"
  let ?rs = "map (\<lambda>i. record_of (?data ! i)) ?is"
  have run: "searchDocuments env (JStr q) =
               (Inr (JObj [(''status'', JStr ''success''), (''results'', JArr ?rs)]), [ValuesGet])"
    using searchDocuments_results [OF assms, of q] by (simp only: matched_indices)
  have sub: "set ?is \<subseteq> set (filter ?P [1..<length ?data])"
    by (rule set_take_subset)
  have idx: "\<forall>i\<in>set ?is. 1 \<le> i \<and> i < length ?data"
    using sub by auto
  have hit: "\<forall>i\<in>set ?is. ?P i"
    using sub by auto
  have fields: "\<forall>r\<in>set ?rs.
      contains_ci (js_prop r ''title'') q \<or> contains_ci (js_prop r ''tags'') q
        \<or> (q = [] \<and> js_prop r ''title'' = JUndefined \<and> js_prop r ''tags'' = JUndefined)"
  proof
    fix r assume "r \<in> set ?rs"
    then obtain i where i: "i \<in> set ?is" and r: "r = record_of (?data ! i)"
      by auto
    from hit i have "row_matches (toLowerCase q) (?data ! i)"
      by blast
    from matched_record_fields [OF this] show
      "contains_ci (js_prop r ''title'') q \<or> contains_ci (js_prop r ''tags'') q
         \<or> (q = [] \<and> js_prop r ''title'' = JUndefined \<and> js_prop r ''tags'' = JUndefined)"
      by (simp add: r record_of_fields)
  qed
  have len: "length ?rs \<le> 50"
    by simp
  show ?thesis
    using run len fields idx by blast
qed

text \<open>
  The query \<^verbatim>\<open>CAT\<close> over the example sheet: the row with tags about cats and the row titled
  \<^verbatim>\<open>Cat Care\<close>, which has no tags cell.
\<close>

theorem search_bounded_matching_witness:
  "searchDocuments env_ex (JStr ''CAT'') =
     (Inr (JObj [(''status'', JStr ''success''),
                 (''results'',
                  JArr [JObj [(''url'', JStr ''http://a.com''), (''title'', JStr ''Foo''),
                              (''tags'', JStr ''cats, pets, animals'')],
                        JObj [(''url'', JStr ''http://c.com''), (''title'', JStr ''Cat Care''),
                              (''tags'', JUndefined)]])]),
      [ValuesGet])
   \<and> (\<exists>rs is.
         searchDocuments env_ex (JStr ''CAT'') =
           (Inr (JObj [(''status'', JStr ''success''), (''results'', JArr rs)]), [ValuesGet])
         \<and> length rs \<le> 50
         \<and> (\<forall>r\<in>set rs.
               contains_ci (js_prop r ''title'') ''CAT'' \<or> contains_ci (js_prop r ''tags'') ''CAT''
                 \<or> (''CAT'' = [] \<and> js_prop r ''title'' = JUndefined
                      \<and> js_prop r ''tags'' = JUndefined))
         \<and> rs = map (\<lambda>i. record_of (sheet_ex ! i)) is
         \<and> (\<forall>i\<in>set is. 1 \<le> i \<and> i < length sheet_ex))"
proof -
  have v: "values_get env_ex = Inr (Some sheet_ex)"
    by (simp add: env_ex_def)
  have "searchDocuments env_ex (JStr ''CAT'') =
     (Inr (JObj [(''status'', JStr ''success''),
                 (''results'',
                  JArr [JObj [(''url'', JStr ''http://a.com''), (''title'', JStr ''Foo''),
                              (''tags'', JStr ''cats, pets, animals'')],
                        JObj [(''url'', JStr ''http://c.com''), (''title'', JStr ''Cat Care''),
                              (''tags'', JUndefined)]])]),
      [ValuesGet])"
    by (simp add: searchDocuments_results [OF v] or_empty_def sheet_ex_def row_matches_def
        record_of_def cell_at_def toLowerCase_def lower_char_def)
  moreover note search_bounded_matching [OF v, of "''CAT''"]
  ultimately show ?thesis
    by (simp add: or_empty_def)
qed

text \<open>
  C2 as stated fails for the empty query over a row without title and tags cells: the row
  is returned, and its record has no title and no tags that could contain the query.
\<close>

theorem search_bounded_matching_counterexample:
  "searchDocuments env_bare (JStr '''') =
     (Inr (JObj [(''status'', JStr ''success''),
                 (''results'',
                  JArr [JObj [(''url'', JStr ''http://b.com''), (''title'', JUndefined),
                              (''tags'', JUndefined)]])]),
      [ValuesGet])
   \<and> \<not> contains_ci (js_prop (JObj [(''url'', JStr ''http://b.com''), (''title'', JUndefined),
                                    (''tags'', JUndefined)]) ''title'') ''''
   \<and> \<not> contains_ci (js_prop (JObj [(''url'', JStr ''http://b.com''), (''title'', JUndefined),
                                    (''tags'', JUndefined)]) ''tags'') ''''"
proof -
  have v: "values_get env_bare = Inr (Some sheet_bare)"
    by (simp add: env_bare_def env_ex_def)
  show ?thesis
    by (simp add: searchDocuments_results [OF v] or_empty_def sheet_bare_def row_matches_def
        record_of_def cell_at_def toLowerCase_def contains_ci_def field_def)
qed

subsection \<open>Search results: order and fields\<close>

text \<open>
  C9. The returned records are those of rows \<open>i\<^sub>1 < i\<^sub>2 < \<dots>\<close> of the sheet as it was read,
  in that order, and the record of a row is \<^verbatim>\<open>{url: row[1], title: row[2], tags: row[3]}\<close>.
\<close>

theorem search_store_order:
  assumes "values_get env = Inr values"
  shows "\<exists>is.
           searchDocuments env (JStr q) =
             (Inr (JObj [(''status'', JStr ''success''),
                         (''results'',
                          JArr (map (\<lambda>i. JObj [(''url'', cell_at (or_empty values ! i) 1),
                                                (''title'', cell_at (or_empty values ! i) 2),
                                                (''tags'', cell_at (or_empty values ! i) 3)]) is))]),
              [ValuesGet])
           \<and> sorted_wrt (<) is
           \<and> (\<forall>i\<in>set is. i < length (or_empty values))"
proof -
  let ?data = "or_empty values"
  let ?is = "take 50 (filter (\<lambda>j. row_matches (toLowerCase q) (?data ! j)) [1..<length ?data])"
  have "searchDocuments env (JStr q) =
          (Inr (JObj [(''status'', JStr ''success''),
                      (''results'', JArr (map (\<lambda>i. record_of (?data ! i)) ?is))]), [ValuesGet])"
    using searchDocuments_results [OF assms, of q] by (simp only: matched_indices)
  moreover have "sorted_wrt (<) ?is"
    by (intro sorted_wrt_take sorted_wrt_filter sorted_wrt_upt)
  moreover have "\<forall>i\<in>set ?is. i < length ?data"
    using set_take_subset [of 50 "filter (\<lambda>j. row_matches (toLowerCase q) (?data ! j)) [1..<length ?data]"]
    by auto
  ultimately show ?thesis
    unfolding record_of_def by blast
qed

text \<open>
  The query \<^verbatim>\<open>a\<close> over the example sheet: rows 1 and 3 match, and come back in that order.
\<close>

theorem search_store_order_witness:
  "searchDocuments env_ex (JStr ''a'') =
     (Inr (JObj [(''status'', JStr ''success''),
                 (''results'',
                  JArr [JObj [(''url'', JStr ''http://a.com''), (''title'', JStr ''Foo''),
                              (''tags'', JStr ''cats, pets, animals'')],
                        JObj [(''url'', JStr ''http://c.com''), (''title'', JStr ''Cat Care''),
                              (''tags'', JUndefined)]])]),
      [ValuesGet])
   \<and> (\<exists>is.
         searchDocuments env_ex (JStr ''a'') =
           (Inr (JObj [(''status'', JStr ''success''),
                       (''results'',
                        JArr (map (\<lambda>i. JObj [(''url'', cell_at (sheet_ex ! i) 1),
                                              (''title'', cell_at (sheet_ex ! i) 2),
                                              (''tags'', cell_at (sheet_ex ! i) 3)]) is))]),
            [ValuesGet])
         \<and> sorted_wrt (<) is
         \<and> (\<forall>i\<in>set is. i < length sheet_ex))"
proof -
  have v: "values_get env_ex = Inr (Some sheet_ex)"
    by (simp add: env_ex_def)
  have "searchDocuments env_ex (JStr ''a'') =
     (Inr (JObj [(''status'', JStr ''success''),
                 (''results'',
                  JArr [JObj [(''url'', JStr ''http://a.com''), (''title'', JStr ''Foo''),
                              (''tags'', JStr ''cats, pets, animals'')],
                        JObj [(''url'', JStr ''http://c.com''), (''title'', JStr ''Cat Care''),
                              (''tags'', JUndefined)]])]),
      [ValuesGet])"
    by (simp add: searchDocuments_results [OF v] or_empty_def sheet_ex_def row_matches_def
        record_of_def cell_at_def toLowerCase_def lower_char_def)
  moreover note search_store_order [OF v, of "''a''"]
  ultimately show ?thesis
    by (simp add: or_empty_def)
qed

subsection \<open>The empty query\<close>

lemma row_matches_empty_query: "row_matches (toLowerCase []) r"
  by (simp add: row_matches_def str_includes_sublist toLowerCase_Nil)

text \<open>
  C5, as the code has it. For the empty query every row after the header is matched,
  whatever its title and tags, and the first 50 of them are returned.
\<close>

theorem search_empty_query:
  assumes "values_get env = Inr values"
  shows "searchDocuments env (JStr []) =
           (Inr (JObj [(''status'', JStr ''success''),
                       (''results'', JArr (take 50 (map record_of (drop 1 (or_empty values)))))]),
            [ValuesGet])"
  using searchDocuments_results [OF assms, of "[]"] by (simp add: row_matches_empty_query)

theorem search_empty_query_witness:
  "searchDocuments env_ex (JStr []) =
     (Inr (JObj [(''status'', JStr ''success''),
                 (''results'',
                  JArr [JObj [(''url'', JStr ''http://a.com''), (''title'', JStr ''Foo''),
                              (''tags'', JStr ''cats, pets, animals'')],
                        JObj [(''url'', JStr ''http://b.com''), (''title'', JUndefined),
                              (''tags'', JUndefined)],
                        JObj [(''url'', JStr ''http://c.com''), (''title'', JStr ''Cat Care''),
                              (''tags'', JUndefined)]])]),
      [ValuesGet])"
proof -
  have v: "values_get env_ex = Inr (Some sheet_ex)"
    by (simp add: env_ex_def)
  show ?thesis
    using search_empty_query [OF v]
    by (simp add: or_empty_def sheet_ex_def record_of_def cell_at_def)
qed

text \<open>
  C5 as stated fails on the example sheet: its second data row has neither title nor tags,
  and the empty query returns it between the two rows that have one.
\<close>

theorem search_empty_query_counterexample:
  "\<not> has_title_or_tags [''2024-01-02'', ''http://b.com'']
   \<and> take 50 (map record_of (filter has_title_or_tags (drop 1 sheet_ex))) =
       [JObj [(''url'', JStr ''http://a.com''), (''title'', JStr ''Foo''),
              (''tags'', JStr ''cats, pets, animals'')],
        JObj [(''url'', JStr ''http://c.com''), (''title'', JStr ''Cat Care''),
              (''tags'', JUndefined)]]
   \<and> searchDocuments env_ex (JStr []) \<noteq>
       (Inr (JObj [(''status'', JStr ''success''),
                   (''results'',
                    JArr (take 50 (map record_of (filter has_title_or_tags (drop 1 sheet_ex)))))]),
        [ValuesGet])"
proof -
  have v: "values_get env_ex = Inr (Some sheet_ex)"
    by (simp add: env_ex_def)
  show ?thesis
    by (simp add: searchDocuments_results [OF v] row_matches_empty_query or_empty_def
        sheet_ex_def has_title_or_tags_def cell_text_def record_of_def cell_at_def)
qed

subsection \<open>Ragged rows\<close>

lemma cell_text_cell_at: "cell_text r j = (case cell_at r j of JStr s \<Rightarrow> s | _ \<Rightarrow> [])"
  by (simp add: cell_text_def cell_at_def)

lemma record_of_same_match:
  assumes "record_of r = record_of r'"
  shows "matches_missing_as_empty q r = matches_missing_as_empty q r'"
proof -
  from assms have "cell_at r 2 = cell_at r' 2" and "cell_at r 3 = cell_at r' 3"
    by (simp_all add: record_of_def)
  then have "cell_text r 2 = cell_text r' 2" and "cell_text r 3 = cell_text r' 3"
    by (simp_all add: cell_text_cell_at)
  then show ?thesis
    by (simp add: matches_missing_as_empty_def)
qed

lemma match_present_or_empty:
  assumes "matches_missing_as_empty q r"
  shows "present_match r q \<or> q = []"
  using assms
  by (auto simp: matches_missing_as_empty_def present_match_def cell_text_def
      toLowerCase_Nil toLowerCase_Nil_iff split: if_splits)

text \<open>
  C10, as the code has it. Over any sheet, rows of any length included, a search with a
  string query returns a result. A row after the header is matched when its title or its
  tags contains the query, a missing cell being read as the empty string. So a row whose
  record is returned has a title or tags cell that contains the query, or the query is
  empty. The record of a row without a title cell, or without a tags cell, has
  \<^verbatim>\<open>undefined\<close> there.
\<close>

theorem search_ragged_rows:
  assumes "values_get env = Inr values"
  shows "\<exists>rs.
           searchDocuments env (JStr q) =
             (Inr (JObj [(''status'', JStr ''success''), (''results'', JArr rs)]), [ValuesGet])
           \<and> rs = take 50 (map record_of
                     (filter (matches_missing_as_empty q) (drop 1 (or_empty values))))
           \<and> (\<forall>r. record_of r \<in> set rs \<longrightarrow> present_match r q \<or> q = [])
           \<and> (\<forall>r. length r \<le> 2 \<longrightarrow> js_prop (record_of r) ''title'' = JUndefined)
           \<and> (\<forall>r. length r \<le> 3 \<longrightarrow> js_prop (record_of r) ''tags'' = JUndefined)"
proof -
  let ?rs = "take 50 (map record_of
               (filter (matches_missing_as_empty q) (drop 1 (or_empty values))))"
  have same: "row_matches (toLowerCase q) = matches_missing_as_empty q"
    by (rule ext) (rule row_matches_iff)
  have run: "searchDocuments env (JStr q) =
          (Inr (JObj [(''status'', JStr ''success''), (''results'', JArr ?rs)]), [ValuesGet])"
    using searchDocuments_results [OF assms, of q] by (simp only: same)
  have only_if: "present_match r q \<or> q = []" if "record_of r \<in> set ?rs" for r
  proof -
    from that have "record_of r \<in> set (map record_of
        (filter (matches_missing_as_empty q) (drop 1 (or_empty values))))"
      by (rule in_set_takeD)
    then obtain r' where "matches_missing_as_empty q r'" and "record_of r = record_of r'"
      by auto
    then have "matches_missing_as_empty q r"
      using record_of_same_match by blast
    then show ?thesis
      by (rule match_present_or_empty)
  qed
  have missing: "length r \<le> 2 \<longrightarrow> js_prop (record_of r) ''title'' = JUndefined"
    "length r \<le> 3 \<longrightarrow> js_prop (record_of r) ''tags'' = JUndefined" for r
    by (simp_all add: record_of_fields cell_at_def)
  show ?thesis
    using run only_if missing by blast
qed

text \<open>
  The query \<^verbatim>\<open>dog\<close> over a sheet with two short rows: the row titled \<^verbatim>\<open>Dogs\<close> is returned
  without tags, the row that has neither title nor tags is not.
\<close>

theorem search_ragged_rows_witness:
  "searchDocuments env_ragged (JStr ''dog'') =
     (Inr (JObj [(''status'', JStr ''success''),
                 (''results'',
                  JArr [JObj [(''url'', JStr ''http://e.com''), (''title'', JStr ''Dogs''),
                              (''tags'', JUndefined)]])]),
      [ValuesGet])
   \<and> present_match [''2024-01-06'', ''http://e.com'', ''Dogs''] ''dog''"
proof -
  have v: "values_get env_ragged = Inr (Some sheet_ragged)"
    by (simp add: env_ragged_def env_ex_def)
  have rs: "take 50 (map record_of
              (filter (matches_missing_as_empty ''dog'') (drop 1 (or_empty (Some sheet_ragged))))) =
            [record_of [''2024-01-06'', ''http://e.com'', ''Dogs'']]"
    by (simp add: or_empty_def sheet_ragged_def matches_missing_as_empty_def cell_text_def
        toLowerCase_def lower_char_def sublist_code)
  from search_ragged_rows [OF v, of "''dog''"] rs
  have "searchDocuments env_ragged (JStr ''dog'') =
          (Inr (JObj [(''status'', JStr ''success''),
                      (''results'', JArr [record_of [''2024-01-06'', ''http://e.com'', ''Dogs'']])]),
           [ValuesGet])"
    and "present_match [''2024-01-06'', ''http://e.com'', ''Dogs''] ''dog'' \<or> ''dog'' = []"
    by auto
  then show ?thesis
    by (simp add: record_of_def cell_at_def)
qed

text \<open>
  C10 as stated fails for the empty query: the row that has neither a title nor a tags cell
  is returned, though no cell it has matches.
\<close>

theorem search_ragged_rows_counterexample:
  "searchDocuments env_ragged (JStr []) =
     (Inr (JObj [(''status'', JStr ''success''),
                 (''results'',
                  JArr [JObj [(''url'', JStr ''http://d.com''), (''title'', JUndefined),
                              (''tags'', JUndefined)],
                        JObj [(''url'', JStr ''http://e.com''), (''title'', JStr ''Dogs''),
                              (''tags'', JUndefined)]])]),
      [ValuesGet])
   \<and> record_of [''2024-01-05'', ''http://d.com''] =
       JObj [(''url'', JStr ''http://d.com''), (''title'', JUndefined), (''tags'', JUndefined)]
   \<and> \<not> present_match [''2024-01-05'', ''http://d.com''] []"
proof -
  have v: "values_get env_ragged = Inr (Some sheet_ragged)"
    by (simp add: env_ragged_def env_ex_def)
  show ?thesis
    by (simp add: searchDocuments_results [OF v] row_matches_empty_query or_empty_def
        sheet_ragged_def record_of_def cell_at_def present_match_def)
qed

end
